theory Spec2Isabelle
  imports Complex_Main
begin

text \<open>
  A model of the store's client: the product list with its duplicate check and its
  low-stock notifications, the export to a delimited file and the bulk import, the
  session of the authentication context, and the derived lists of the product list and
  of the dashboard. The definitions come first, then what is proved of them.
\<close>

section \<open>JavaScript values\<close>

text \<open>
  A JavaScript \<open>number\<close> is an IEEE double. Every finite double is a rational, so a
  finite number is modelled by its exact value; \<open>NaN\<close> is the result of a failed
  conversion. The code only compares numbers and takes the sign of a difference, and on
  finite doubles both agree with the exact value. The infinities are not represented.
  The conversions between numbers and text (\<open>Number(s)\<close>, the text of a number in a
  template literal), \<open>localeCompare\<close>, \<open>Date\<close> parsing and \<open>JSON\<close> are built-ins of
  the runtime: the functions below take them as parameters of the same name.
\<close>

datatype number = NaN | Num rat

text \<open>\<open>a < b\<close> on numbers: false as soon as one side is \<open>NaN\<close>.\<close>

fun lt :: "number \<Rightarrow> number \<Rightarrow> bool" where
  "lt (Num x) (Num y) = (x < y)"
| "lt _ _ = False"

text \<open>\<open>a - b\<close> on numbers.\<close>

fun minus :: "number \<Rightarrow> number \<Rightarrow> number" where
  "minus (Num x) (Num y) = Num (x - y)"
| "minus _ _ = NaN"

text \<open>
  Strings are lists of characters, and a character is a byte. \<open>toLowerCase\<close> maps the
  letters \<open>A\<close> to \<open>Z\<close> to \<open>a\<close> to \<open>z\<close> and leaves every other character as it is;
  the letters outside ASCII are not modelled. What is proved of the duplicate check below
  does not depend on what \<open>toLowerCase\<close> does to a character.
\<close>

definition lowerChar :: "char \<Rightarrow> char" where
  "lowerChar c =
     (let n = (of_char c :: nat) in if 65 \<le> n \<and> n \<le> 90 then char_of (n + 32) else c)"

definition toLowerCase :: "string \<Rightarrow> string" where
  "toLowerCase s = map lowerChar s"

text \<open>The double quote character, and a text between double quotes.\<close>

definition dq :: char where
  "dq = CHR 0x22"

definition quoted :: "string \<Rightarrow> string" where
  "quoted s = dq # s @ [dq]"

text \<open>
  \<open>s.split(c)\<close> for a separator of one character. The result is never empty
  (\<open>"".split(c)\<close> is \<open>[""]\<close>), so the first branch of the \<open>case\<close> is never taken.
\<close>

fun split :: "char \<Rightarrow> string \<Rightarrow> string list" where
  "split c [] = [[]]"
| "split c (x # xs) =
     (if x = c then [] # split c xs
      else (case split c xs of [] \<Rightarrow> [[x]] | y # ys \<Rightarrow> (x # y) # ys))"

text \<open>\<open>xs.join(sep)\<close>.\<close>

fun join :: "string \<Rightarrow> string list \<Rightarrow> string" where
  "join sep [] = []"
| "join sep [x] = x"
| "join sep (x # y # ys) = x @ sep @ join sep (y # ys)"

text \<open>\<open>s.startsWith(t)\<close> and \<open>s.includes(t)\<close> (a keyword of Isabelle, hence the suffix).\<close>

fun startsWith :: "string \<Rightarrow> string \<Rightarrow> bool" where
  "startsWith s [] = True"
| "startsWith [] (y # ys) = False"
| "startsWith (x # xs) (y # ys) = (x = y \<and> startsWith xs ys)"

fun includes_str :: "string \<Rightarrow> string \<Rightarrow> bool" where
  "includes_str [] t = (t = [])"
| "includes_str (x # xs) t = (startsWith (x # xs) t \<or> includes_str xs t)"

text \<open>\<open>v || d\<close> for a string \<open>v\<close> that may be \<open>undefined\<close>: the empty string is falsy.\<close>

fun orElse :: "string option \<Rightarrow> string \<Rightarrow> string" where
  "orElse None d = d"
| "orElse (Some s) d = (if s = [] then d else s)"

section \<open>Products\<close>

text \<open>
  \<open>interface Product\<close>. The payload of a creation, \<open>Omit<Product, "id">\<close>, is the
  record without its identifier; \<open>id\<close> is written \<open>id'\<close>.
\<close>

record draft =
  name :: string
  category :: string
  price :: number
  stock :: number
  description :: string
  url :: "string option"
  updatedAt :: "string option"

record product = draft +
  id' :: string

text \<open>What a call does besides changing state: requests to the backend and notifications.\<close>

datatype request =
    Get string
  | Post string draft
  | PostProduct string product
  | Put string product

datatype toastKind = Success | Failure

datatype event =
    Request request
  | Toast toastKind string "string option"
  | OnAdd draft

text \<open>A request either resolves with the backend's data or is rejected.\<close>

datatype 'a response = Resolved 'a | Rejected

datatype error =
    DuplicateError
  | TransportError
  | AuthenticationError
  | SyntaxError

section \<open>The product list\<close>

text \<open>
  The state of the component. A call is modelled as one step, from the state of the render
  it was started in to the state it commits, with the events it causes in their order.
  The answer of the backend to the request of a call is a parameter of the call, read only
  where the call sends the request. Output on the console is left out.
\<close>

record productList =
  products :: "product list"
  editingProduct :: "product option"
  isAddFormOpen :: bool

definition productsUrl :: string where
  "productsUrl = ''https://react-store-2wpq.onrender.com/products''"

definition lowStockToast :: "(number \<Rightarrow> string) \<Rightarrow> product \<Rightarrow> event" where
  "lowStockToast String p =
     Toast Failure
       (''Low stock alert: '' @ name p @ '' has only '' @ String (stock p) @ '' units left!'')
       (Some (''low-stock-'' @ id' p))"

definition duplicateToast :: "string \<Rightarrow> event" where
  "duplicateToast n =
     Toast Failure (''Duplicate entry: '' @ quoted n @ '' already exists!'') None"

text \<open>
  \<open>fetchProducts\<close>: the response replaces the collection, and \<open>forEach\<close> raises one
  notification for every fetched product whose stock is below 10.
\<close>

definition fetchProducts ::
  "(number \<Rightarrow> string) \<Rightarrow> product list response \<Rightarrow> productList \<Rightarrow> productList \<times> event list"
where
  "fetchProducts String response st =
     (case response of
        Resolved fetchedProducts \<Rightarrow>
          (st\<lparr>products := fetchedProducts\<rparr>,
           Request (Get productsUrl) #
           concat (map (\<lambda>product.
                     if lt (stock product) (Num 10) then [lowStockToast String product] else [])
                   fetchedProducts))
      | Rejected \<Rightarrow>
          (st, [Request (Get productsUrl), Toast Failure ''Failed to fetch products!'' None]))"

text \<open>
  \<open>addProduct\<close>: the duplicate check runs on the collection in memory and returns before
  the request. The first component names the branch taken.
\<close>

definition addProduct ::
  "product response \<Rightarrow> draft \<Rightarrow> productList \<Rightarrow> error option \<times> productList \<times> event list"
where
  "addProduct response product st =
     (if \<exists>p \<in> set (products st). toLowerCase (name p) = toLowerCase (name product)
      then (Some DuplicateError, st, [duplicateToast (name product)])
      else
        (case response of
           Resolved data \<Rightarrow>
             (None,
              st\<lparr>products := products st @ [data], isAddFormOpen := False\<rparr>,
              [Request (Post productsUrl product),
               Toast Success (''Product '' @ quoted (name product) @ '' added successfully!'') None])
         | Rejected \<Rightarrow>
             (Some TransportError, st,
              [Request (Post productsUrl product),
               Toast Failure ''Failed to add product!'' None])))"

text \<open>\<open>updateProduct\<close>: the same check, against the records with another identifier.\<close>

definition updateProduct ::
  "(number \<Rightarrow> string) \<Rightarrow> product response \<Rightarrow> product \<Rightarrow> productList \<Rightarrow>
   error option \<times> productList \<times> event list"
where
  "updateProduct String response updatedProduct st =
     (if \<exists>p \<in> set (products st).
           toLowerCase (name p) = toLowerCase (name updatedProduct) \<and>
           id' p \<noteq> id' updatedProduct
      then (Some DuplicateError, st, [duplicateToast (name updatedProduct)])
      else
        (case response of
           Resolved data \<Rightarrow>
             (None,
              st\<lparr>products :=
                    map (\<lambda>p. if id' p = id' updatedProduct then data else p) (products st),
                  editingProduct := None\<rparr>,
              [Request (Put (productsUrl @ ''/'' @ id' updatedProduct) updatedProduct),
               Toast Success
                 (''Product '' @ quoted (name updatedProduct) @ '' updated successfully!'') None]
              @ (if lt (stock data) (Num 10) then [lowStockToast String data] else []))
         | Rejected \<Rightarrow>
             (Some TransportError, st,
              [Request (Put (productsUrl @ ''/'' @ id' updatedProduct) updatedProduct),
               Toast Failure ''Failed to update product!'' None])))"

text \<open>The requests among the events of a call.\<close>

definition requests :: "event list \<Rightarrow> request list" where
  "requests evs = concat (map (\<lambda>e. case e of Request r \<Rightarrow> [r] | _ \<Rightarrow> []) evs)"

section \<open>Export and bulk import\<close>

definition nl :: char where
  "nl = CHR 0x0A"

definition csvHeader :: string where
  "csvHeader = ''ID,Name,Category,Price,Stock,Description,URL,UpdatedAt''"

text \<open>\<open>s.replace(/"/g, '""')\<close> and \<open>s.replace(/,/g, " ")\<close>.\<close>

definition doubleQuotes :: "string \<Rightarrow> string" where
  "doubleQuotes s = concat (map (\<lambda>c. if c = dq then [dq, dq] else [c]) s)"

definition commasToSpaces :: "string \<Rightarrow> string" where
  "commasToSpaces s = map (\<lambda>c. if c = CHR '','' then CHR '' '' else c) s"

text \<open>
  \<open>exportToCSV\<close> of the add-product form: the row of a product, the content of the
  file, and the call, which fetches the products first.
\<close>

definition formRow :: "(number \<Rightarrow> string) \<Rightarrow> product \<Rightarrow> string" where
  "formRow String p =
     join '',''
       [quoted (id' p), quoted (name p), quoted (category p),
        quoted (String (price p)), quoted (String (stock p)),
        quoted (doubleQuotes (description p)),
        quoted (orElse (url p) []), quoted (orElse (updatedAt p) [])]"

definition formCsvContent :: "(number \<Rightarrow> string) \<Rightarrow> product list \<Rightarrow> string" where
  "formCsvContent String ps = join [nl] ([csvHeader] @ map (formRow String) ps)"

definition exportToCSV ::
  "(number \<Rightarrow> string) \<Rightarrow> product list response \<Rightarrow> string option \<times> event list"
where
  "exportToCSV String response =
     (case response of
        Resolved ps \<Rightarrow>
          (Some (formCsvContent String ps),
           [Request (Get ''/api/products''), Toast Success ''Products exported to CSV!'' None])
      | Rejected \<Rightarrow>
          (None,
           [Request (Get ''/api/products''), Toast Failure ''Failed to export to CSV!'' None]))"

text \<open>\<open>exportToCSV\<close> of the navigation bar: the commas of the whole row become spaces.\<close>

definition navbarRow :: "(number \<Rightarrow> string) \<Rightarrow> product \<Rightarrow> string" where
  "navbarRow String p =
     commasToSpaces
       (id' p @ '','' @ name p @ '','' @ category p @ '','' @ String (price p) @ '','' @
        String (stock p) @ '','' @ description p @ '','' @ orElse (url p) [] @ '','' @
        orElse (updatedAt p) [])"

definition navbarCsvContent :: "(number \<Rightarrow> string) \<Rightarrow> product list \<Rightarrow> string" where
  "navbarCsvContent String ps = join [nl] ([csvHeader] @ map (navbarRow String) ps)"

text \<open>
  \<open>handleBulkUpload\<close>. Destructuring the fields of a line gives \<open>undefined\<close> past the
  last one; \<open>!v\<close> holds for \<open>undefined\<close> and for the empty string.
\<close>

definition field :: "string list \<Rightarrow> nat \<Rightarrow> string option" where
  "field fs i = (if i < length fs then Some (fs ! i) else None)"

fun falsy :: "string option \<Rightarrow> bool" where
  "falsy None = True"
| "falsy (Some s) = (s = [])"

text \<open>
  The callback of \<open>lines.map\<close>: \<open>null\<close> for a line that lacks one of the first five
  fields. \<open>now\<close> is \<open>new Date().toISOString()\<close>, read during the synchronous parse.
\<close>

definition parseLine :: "(string \<Rightarrow> number) \<Rightarrow> string \<Rightarrow> string \<Rightarrow> product option" where
  "parseLine Number now line =
     (let fs = split CHR '','' line in
      if falsy (field fs 0) \<or> falsy (field fs 1) \<or> falsy (field fs 2) \<or>
         falsy (field fs 3) \<or> falsy (field fs 4)
      then None
      else Some
        \<lparr>name = the (field fs 1),
         category = the (field fs 2),
         price = Number (the (field fs 3)),
         stock = Number (the (field fs 4)),
         description = orElse (field fs 5) [],
         url = (if falsy (field fs 6) then None else field fs 6),
         updatedAt = Some (orElse (field fs 7) now),
         id' = the (field fs 0)\<rparr>)"

definition newProducts :: "(string \<Rightarrow> number) \<Rightarrow> string \<Rightarrow> string \<Rightarrow> product list" where
  "newProducts Number now text =
     map the (filter (\<lambda>p. p \<noteq> None) (map (parseLine Number now) (tl (split nl text))))"

text \<open>
  The loop over the parsed products. The backend is a state machine \<open>post\<close>: from its
  state and the body of a request it gives whether the request resolves, and its next
  state. A product whose request resolves is handed to \<open>onAdd\<close>; a rejection is caught
  inside the loop.
\<close>

fun uploadLoop ::
  "('b \<Rightarrow> product \<Rightarrow> bool \<times> 'b) \<Rightarrow> product list \<Rightarrow> 'b \<Rightarrow> nat \<Rightarrow> event list \<times> nat \<times> 'b"
where
  "uploadLoop post [] b successCount = ([], successCount, b)"
| "uploadLoop post (product # rest) b successCount =
     (case post b product of
        (True, b') \<Rightarrow>
          (case uploadLoop post rest b' (successCount + 1) of
             (evs, n, b'') \<Rightarrow>
               (Request (PostProduct ''/api/products'' product) #
                OnAdd \<lparr>name = name product, category = category product,
                       price = price product, stock = stock product,
                       description = description product, url = url product,
                       updatedAt = updatedAt product\<rparr> #
                evs, n, b''))
      | (False, b') \<Rightarrow>
          (case uploadLoop post rest b' successCount of
             (evs, n, b'') \<Rightarrow>
               (Request (PostProduct ''/api/products'' product) #
                Toast Failure (''Failed to upload '' @ quoted (name product)) None #
                evs, n, b'')))"

definition handleBulkUpload ::
  "(string \<Rightarrow> number) \<Rightarrow> (number \<Rightarrow> string) \<Rightarrow> string \<Rightarrow> ('b \<Rightarrow> product \<Rightarrow> bool \<times> 'b) \<Rightarrow>
   'b \<Rightarrow> string option \<Rightarrow> event list \<times> nat \<times> 'b"
where
  "handleBulkUpload Number String now post b file =
     (case file of
        None \<Rightarrow> ([], 0, b)
      | Some text \<Rightarrow>
          (case uploadLoop post (newProducts Number now text) b 0 of
             (evs, successCount, b') \<Rightarrow>
               (evs @
                (if successCount > 0
                 then [Toast Success
                         (String (Num (of_nat successCount)) @
                          '' product(s) uploaded successfully!'') None]
                 else []),
                successCount, b')))"

text \<open>
  The rule of the import in the specification's words: a line is kept when its first five
  fields, after the split on the comma, are all there and none is empty.
\<close>

definition fiveFields :: "string \<Rightarrow> bool" where
  "fiveFields line =
     (let fs = split CHR '','' line in 5 \<le> length fs \<and> [] \<notin> set (take 5 fs))"

section \<open>The session\<close>

text \<open>
  What \<open>JSON.parse\<close> returns is any value of JSON, and the state \<open>user\<close> holds it as
  it is: the declared type \<open>User | null\<close> is not checked when the program runs.
\<close>

datatype json =
    JNull
  | JBool bool
  | JNum number
  | JStr string
  | JArr "json list"
  | JObj "(string \<times> json) list"

text \<open>\<open>if (v)\<close>: \<open>null\<close>, \<open>false\<close>, zero, \<open>NaN\<close> and the empty string are falsy.\<close>

fun truthy :: "json \<Rightarrow> bool" where
  "truthy JNull = False"
| "truthy (JBool b) = b"
| "truthy (JNum n) = (n \<noteq> NaN \<and> n \<noteq> Num 0)"
| "truthy (JStr s) = (s \<noteq> [])"
| "truthy (JArr xs) = True"
| "truthy (JObj fs) = True"

text \<open>An account of the backend's list.\<close>

record account =
  username :: string
  password :: string
  role :: string

text \<open>The state \<open>user\<close> of the provider and the entry \<open>"user"\<close> of the local storage.\<close>

record authContext =
  user :: json
  localStorage :: "string option"

text \<open>The effect that follows every change of \<open>user\<close>.\<close>

definition syncStorage :: "(json \<Rightarrow> string) \<Rightarrow> authContext \<Rightarrow> authContext" where
  "syncStorage JSON_stringify st =
     (if truthy (user st)
      then st\<lparr>localStorage := Some (JSON_stringify (user st))\<rparr>
      else st\<lparr>localStorage := None\<rparr>)"

definition setUser :: "(json \<Rightarrow> string) \<Rightarrow> json \<Rightarrow> authContext \<Rightarrow> authContext" where
  "setUser JSON_stringify v st = syncStorage JSON_stringify (st\<lparr>user := v\<rparr>)"

text \<open>
  The initial state: \<open>savedUser ? JSON.parse(savedUser) : null\<close>, where \<open>JSON.parse\<close>
  either gives a value or throws. No field of the value is picked or checked.
\<close>

definition AuthProvider ::
  "(string \<Rightarrow> error + json) \<Rightarrow> (json \<Rightarrow> string) \<Rightarrow> string option \<Rightarrow> error + authContext"
where
  "AuthProvider JSON_parse JSON_stringify savedUser =
     (if falsy savedUser
      then Inr (syncStorage JSON_stringify \<lparr>user = JNull, localStorage = savedUser\<rparr>)
      else
        (case JSON_parse (the savedUser) of
           Inl e \<Rightarrow> Inl e
         | Inr v \<Rightarrow> Inr (syncStorage JSON_stringify \<lparr>user = v, localStorage = savedUser\<rparr>)))"

text \<open>\<open>userData\<close>: the object \<open>login\<close> builds from the account it found.\<close>

definition userData :: "account \<Rightarrow> json" where
  "userData foundUser =
     JObj [(''username'', JStr (username foundUser)), (''role'', JStr (role foundUser))]"

definition login ::
  "(json \<Rightarrow> string) \<Rightarrow> account list response \<Rightarrow> string \<Rightarrow> string \<Rightarrow> authContext \<Rightarrow>
   error option \<times> authContext"
where
  "login JSON_stringify response username' password' st =
     (case response of
        Rejected \<Rightarrow> (Some TransportError, st)
      | Resolved users \<Rightarrow>
          (case find (\<lambda>u. username u = username' \<and> password u = password') users of
             Some foundUser \<Rightarrow> (None, setUser JSON_stringify (userData foundUser) st)
           | None \<Rightarrow> (Some AuthenticationError, st)))"

definition logout :: "(json \<Rightarrow> string) \<Rightarrow> authContext \<Rightarrow> authContext" where
  "logout JSON_stringify st = setUser JSON_stringify JNull st"

section \<open>Derived lists\<close>

text \<open>
  An array is an object: a state variable holds a reference to it. \<open>filter\<close> and
  \<open>slice\<close> allocate a new array; \<open>sort\<close> sorts the array it is called on, in place,
  and returns the same reference. The store is the list of the arrays allocated so far,
  and a reference is an index into it.
\<close>

type_synonym ref = nat

type_synonym store = "product list list"

definition alloc :: "product list \<Rightarrow> store \<Rightarrow> ref \<times> store" where
  "alloc xs h = (length h, h @ [xs])"

text \<open>
  The order \<open>sort\<close> gives with a comparator: stable, an element moves behind another one
  only where the comparator is positive (\<open>NaN\<close> counts as zero).
\<close>

fun insertBy :: "('a \<Rightarrow> 'a \<Rightarrow> number) \<Rightarrow> 'a \<Rightarrow> 'a list \<Rightarrow> 'a list" where
  "insertBy cmp x [] = [x]"
| "insertBy cmp x (y # ys) =
     (if lt (Num 0) (cmp x y) then y # insertBy cmp x ys else x # y # ys)"

definition sortedBy :: "('a \<Rightarrow> 'a \<Rightarrow> number) \<Rightarrow> 'a list \<Rightarrow> 'a list" where
  "sortedBy cmp xs = foldr (insertBy cmp) xs []"

definition Array_filter :: "(product \<Rightarrow> bool) \<Rightarrow> ref \<Rightarrow> store \<Rightarrow> ref \<times> store" where
  "Array_filter f r h = alloc (filter f (h ! r)) h"

definition Array_sort :: "(product \<Rightarrow> product \<Rightarrow> number) \<Rightarrow> ref \<Rightarrow> store \<Rightarrow> ref \<times> store" where
  "Array_sort cmp r h = (r, h[r := sortedBy cmp (h ! r)])"

definition Array_slice :: "nat \<Rightarrow> nat \<Rightarrow> ref \<Rightarrow> store \<Rightarrow> ref \<times> store" where
  "Array_slice start stop r h = alloc (take (stop - start) (drop start (h ! r))) h"

text \<open>\<open>filteredProducts\<close> of the product list, from the reference held in \<open>products\<close>.\<close>

definition filteredProducts ::
  "(string \<Rightarrow> string \<Rightarrow> number) \<Rightarrow> string \<Rightarrow> string \<Rightarrow> string \<Rightarrow> ref \<Rightarrow> store \<Rightarrow> ref \<times> store"
where
  "filteredProducts localeCompare search categoryFilter sortBy r h =
     (case Array_filter (\<lambda>p. includes_str (toLowerCase (name p)) (toLowerCase search)) r h of
        (r1, h1) \<Rightarrow>
     (case Array_filter
             (\<lambda>p. if categoryFilter \<noteq> [] then category p = categoryFilter else True) r1 h1 of
        (r2, h2) \<Rightarrow>
          Array_sort
            (\<lambda>a b.
               if sortBy = ''price-asc'' then minus (price a) (price b)
               else if sortBy = ''price-desc'' then minus (price b) (price a)
               else if sortBy = ''name-asc'' then localeCompare (name a) (name b)
               else if sortBy = ''name-desc'' then localeCompare (name b) (name a)
               else Num 0)
            r2 h2))"

text \<open>
  The lists of the dashboard. \<open>getTime\<close> is \<open>new Date(s).getTime()\<close>; the date of
  \<open>undefined\<close> is invalid and its time is \<open>NaN\<close>.
\<close>

definition updatedTime :: "(string \<Rightarrow> number) \<Rightarrow> product \<Rightarrow> number" where
  "updatedTime getTime p = (case updatedAt p of None \<Rightarrow> NaN | Some s \<Rightarrow> getTime s)"

definition lowStockProducts :: "ref \<Rightarrow> store \<Rightarrow> ref \<times> store" where
  "lowStockProducts r h =
     (case Array_filter (\<lambda>p. lt (stock p) (Num 10)) r h of
        (r1, h1) \<Rightarrow>
     (case Array_sort (\<lambda>a b. minus (stock a) (stock b)) r1 h1 of
        (r2, h2) \<Rightarrow> Array_slice 0 5 r2 h2))"

definition recentUpdates :: "(string \<Rightarrow> number) \<Rightarrow> ref \<Rightarrow> store \<Rightarrow> ref \<times> store" where
  "recentUpdates getTime r h =
     (case Array_sort (\<lambda>a b. minus (updatedTime getTime b) (updatedTime getTime a)) r h of
        (r1, h1) \<Rightarrow> Array_slice 0 5 r1 h1)"

section \<open>Notifications\<close>

text \<open>
  Modelled from the spec: the store of the notification library, which is not among the
  sources. A notification raised with an identity key takes the place of the one shown
  under the same key; the others do not enter the keyed store.
\<close>

fun showToast :: "event \<Rightarrow> (string \<rightharpoonup> string) \<Rightarrow> (string \<rightharpoonup> string)" where
  "showToast (Toast k msg (Some key)) shown = shown(key \<mapsto> msg)"
| "showToast _ shown = shown"

definition showAll :: "event list \<Rightarrow> (string \<rightharpoonup> string) \<Rightarrow> (string \<rightharpoonup> string)" where
  "showAll evs shown = fold showToast evs shown"

section \<open>Notions of the specification\<close>

text \<open>Names are unique without regard to case, and identifiers are distinct.\<close>

definition uniqueNames :: "product list \<Rightarrow> bool" where
  "uniqueNames ps = distinct (map (\<lambda>p. toLowerCase (name p)) ps)"

definition consistent :: "product list \<Rightarrow> bool" where
  "consistent ps = (uniqueNames ps \<and> distinct (map id' ps))"

text \<open>
  The bodies of the creation requests among the events of an import, the payloads handed
  to \<open>onAdd\<close>, the notifications, and the answers of the backend to the requests of a
  batch, in order.
\<close>

definition posted :: "event list \<Rightarrow> product list" where
  "posted evs =
     concat (map (\<lambda>e. case e of Request (PostProduct u p) \<Rightarrow> [p] | _ \<Rightarrow> []) evs)"

definition handedOn :: "event list \<Rightarrow> draft list" where
  "handedOn evs = concat (map (\<lambda>e. case e of OnAdd d \<Rightarrow> [d] | _ \<Rightarrow> []) evs)"

definition toasts :: "event list \<Rightarrow> event list" where
  "toasts evs = filter (\<lambda>e. case e of Toast k m i \<Rightarrow> True | _ \<Rightarrow> False) evs"

fun answers :: "('b \<Rightarrow> product \<Rightarrow> bool \<times> 'b) \<Rightarrow> 'b \<Rightarrow> product list \<Rightarrow> bool list" where
  "answers post b [] = []"
| "answers post b (p # ps) = (case post b p of (ok, b') \<Rightarrow> ok # answers post b' ps)"

definition successToast :: "(number \<Rightarrow> string) \<Rightarrow> nat \<Rightarrow> event" where
  "successToast String n =
     Toast Success (String (Num (of_nat n)) @ '' product(s) uploaded successfully!'') None"

text \<open>The tuple of a product that a round trip through the file should keep.\<close>

definition tuple :: "product \<Rightarrow> string \<times> string \<times> number \<times> number" where
  "tuple p = (name p, category p, price p, stock p)"

text \<open>A text without comma and without line break.\<close>

definition plain :: "string \<Rightarrow> bool" where
  "plain s = (CHR '','' \<notin> set s \<and> nl \<notin> set s)"

definition plainProduct :: "(number \<Rightarrow> string) \<Rightarrow> product \<Rightarrow> bool" where
  "plainProduct String p =
     (plain (id' p) \<and> plain (name p) \<and> plain (category p) \<and> plain (String (price p)) \<and>
      plain (String (stock p)) \<and> plain (description p) \<and> plain (orElse (url p) []) \<and>
      plain (orElse (updatedAt p) []))"

text \<open>What the import reads from the exported row of a product: every field with its quotes.\<close>

definition reimported :: "(string \<Rightarrow> number) \<Rightarrow> (number \<Rightarrow> string) \<Rightarrow> product \<Rightarrow> product" where
  "reimported Number String p =
     \<lparr>name = quoted (name p),
      category = quoted (category p),
      price = Number (quoted (String (price p))),
      stock = Number (quoted (String (stock p))),
      description = quoted (doubleQuotes (description p)),
      url = Some (quoted (orElse (url p) [])),
      updatedAt = Some (quoted (orElse (updatedAt p) [])),
      id' = quoted (id' p)\<rparr>"

text \<open>
  The row the specification describes: every field between quotes, the quotes inside a
  field doubled.
\<close>

definition escapedRow :: "(number \<Rightarrow> string) \<Rightarrow> product \<Rightarrow> string" where
  "escapedRow String p =
     join '',''
       (map (\<lambda>f. quoted (doubleQuotes f))
          [id' p, name p, category p, String (price p), String (stock p), description p,
           orElse (url p) [], orElse (updatedAt p) []])"

text \<open>The persisted entry is the text of the session in memory, and absent without one.\<close>

definition persisted :: "(json \<Rightarrow> string) \<Rightarrow> authContext \<Rightarrow> bool" where
  "persisted JSON_stringify st =
     (localStorage st = (if truthy (user st) then Some (JSON_stringify (user st)) else None))"

text \<open>The names of the fields of a value, when it is an object.\<close>

fun fieldNames :: "json \<Rightarrow> string list" where
  "fieldNames (JObj fs) = map fst fs"
| "fieldNames _ = []"

text \<open>
  The payload of \<open>onAdd\<close> for a parsed product, and the events of one product in the
  loop of the import: its request, then \<open>onAdd\<close> when the request resolved and the
  notification of the failure when it did not.
\<close>

definition payload :: "product \<Rightarrow> draft" where
  "payload p =
     \<lparr>name = name p, category = category p, price = price p, stock = stock p,
      description = description p, url = url p, updatedAt = updatedAt p\<rparr>"

definition uploadEvents :: "product \<times> bool \<Rightarrow> event list" where
  "uploadEvents pa =
     [Request (PostProduct ''/api/products'' (fst pa)),
      if snd pa then OnAdd (payload (fst pa))
      else Toast Failure (''Failed to upload '' @ quoted (name (fst pa))) None]"

text \<open>
  A backend that answers a creation with the submitted name under an identifier the
  collection does not hold, and a replacement with the submitted name and identifier.
\<close>

definition created :: "draft \<Rightarrow> product list \<Rightarrow> product response \<Rightarrow> bool" where
  "created candidate ps response =
     (case response of
        Rejected \<Rightarrow> True
      | Resolved data \<Rightarrow> name data = name candidate \<and> id' data \<notin> set (map id' ps))"

definition replaced :: "product \<Rightarrow> product response \<Rightarrow> bool" where
  "replaced updated response =
     (case response of
        Rejected \<Rightarrow> True
      | Resolved data \<Rightarrow> name data = name updated \<and> id' data = id' updated)"

text \<open>The keyed notifications among the events of a call, each with its key.\<close>

definition keyed :: "event list \<Rightarrow> (string \<times> string) list" where
  "keyed evs =
     concat (map (\<lambda>e. case e of Toast k msg (Some key) \<Rightarrow> [(key, msg)] | _ \<Rightarrow> []) evs)"

section \<open>Instances of the built-ins, and example data\<close>

text \<open>
  The text of a number, for the integers, which JavaScript writes in decimal (below
  \<open>10\<^sup>2\<^sup>1\<close>), and for \<open>NaN\<close>. The text JavaScript gives a fraction is not
  modelled: the examples have none, and the instance is not used on one.
\<close>

fun natText :: "nat \<Rightarrow> string" where
  "natText n =
     (if n < 10 then [char_of (48 + n)]
      else natText (n div 10) @ [char_of (48 + n mod 10)])"

definition numberText :: "number \<Rightarrow> string" where
  "numberText v =
     (case v of
        NaN \<Rightarrow> ''NaN''
      | Num q \<Rightarrow>
          (let i = \<lfloor>q\<rfloor> in
           if of_int i \<noteq> q then ''NaN''
           else if i < 0 then CHR ''-'' # natText (nat (- i))
           else natText (nat i)))"

text \<open>
  \<open>Number(s)\<close> for a text of decimal digits; \<open>NaN\<close> for any other text, as JavaScript
  gives for a text with a quote or a letter in it.
\<close>

definition textNumber :: "string \<Rightarrow> number" where
  "textNumber s =
     (if s \<noteq> [] \<and> list_all (\<lambda>c. 48 \<le> (of_char c :: nat) \<and> (of_char c :: nat) \<le> 57) s
      then Num (of_nat (foldl (\<lambda>a c. 10 * a + (of_char c - 48)) 0 s))
      else NaN)"

text \<open>\<open>getTime\<close> of two timestamps, in milliseconds; \<open>NaN\<close> as for a text that is no date.\<close>

definition january :: string where
  "january = ''2024-01-01T00:00:00.000Z''"

definition june :: string where
  "june = ''2024-06-01T00:00:00.000Z''"

definition timeOf :: "string \<Rightarrow> number" where
  "timeOf s =
     (if s = january then Num 1704067200000
      else if s = june then Num 1717200000000
      else NaN)"

text \<open>
  \<open>JSON.stringify\<close> for values whose texts need no escape and whose numbers are
  integers, and a backend that resolves every request.
\<close>

fun jsonText :: "json \<Rightarrow> string" where
  "jsonText JNull = ''null''"
| "jsonText (JBool b) = (if b then ''true'' else ''false'')"
| "jsonText (JNum n) = numberText n"
| "jsonText (JStr s) = quoted s"
| "jsonText (JArr xs) = ''['' @ join '','' (map jsonText xs) @ '']''"
| "jsonText (JObj fs) =
     ''{'' @ join '','' (map (\<lambda>kv. quoted (fst kv) @ '':'' @ jsonText (snd kv)) fs) @ ''}''"

definition resolving :: "unit \<Rightarrow> product \<Rightarrow> bool \<times> unit" where
  "resolving b p = (True, b)"

definition widget :: product where
  "widget =
     \<lparr>name = ''Widget'', category = ''Electronics'', price = Num 5, stock = Num 5,
      description = [], url = None, updatedAt = Some january, id' = ''1''\<rparr>"

definition gadget :: product where
  "gadget =
     \<lparr>name = ''Gadget'', category = ''Books'', price = Num 20, stock = Num 50,
      description = [], url = None, updatedAt = Some june, id' = ''2''\<rparr>"

definition lowerWidget :: draft where
  "lowerWidget =
     \<lparr>name = ''widget'', category = ''Electronics'', price = Num 7, stock = Num 12,
      description = [], url = None, updatedAt = None\<rparr>"

definition widgetTwin :: product where
  "widgetTwin =
     \<lparr>name = ''widget'', category = ''Electronics'', price = Num 7, stock = Num 12,
      description = [], url = None, updatedAt = None, id' = ''3''\<rparr>"

definition renamedGadget :: product where
  "renamedGadget = gadget\<lparr>name := ''WIDGET''\<rparr>"

definition shop :: productList where
  "shop = \<lparr>products = [widget, gadget], editingProduct = None, isAddFormOpen = True\<rparr>"

definition admin :: account where
  "admin = \<lparr>username = ''admin'', password = ''secret'', role = ''admin''\<rparr>"

definition anonymous :: authContext where
  "anonymous = \<lparr>user = JNull, localStorage = None\<rparr>"

definition gizmoDraft :: draft where
  "gizmoDraft =
     \<lparr>name = ''Gizmo'', category = ''Books'', price = Num 3, stock = Num 4,
      description = [], url = None, updatedAt = None\<rparr>"

definition gizmo :: product where
  "gizmo =
     \<lparr>name = ''Gizmo'', category = ''Books'', price = Num 3, stock = Num 4,
      description = [], url = None, updatedAt = None, id' = ''4''\<rparr>"

definition restocked :: product where
  "restocked = gadget\<lparr>stock := Num 3\<rparr>"

text \<open>
  \<open>JSON.parse\<close> on the texts of the examples: \<open>null\<close>, an object whose fields are
  texts without escapes, written without spaces, and a text that is no JSON, such as
  \<open>{bad\<close>, where it throws. Other JSON texts are not covered. The pieces between the
  double quotes of such an object are the brace, then a name, a colon, a text and a comma
  for each field, with the closing brace in the place of the last comma.
\<close>

fun flatFields :: "string list \<Rightarrow> (string \<times> json) list option" where
  "flatFields [k, c, v, e] = (if c = '':'' \<and> e = ''}'' then Some [(k, JStr v)] else None)"
| "flatFields (k # c # v # e # rest) =
     (if c = '':'' \<and> e = '',''
      then (case flatFields rest of Some fs \<Rightarrow> Some ((k, JStr v) # fs) | None \<Rightarrow> None)
      else None)"
| "flatFields _ = None"

definition parseFlat :: "string \<Rightarrow> error + json" where
  "parseFlat s =
     (if s = ''null'' then Inr JNull
      else
        (case split dq s of
           [] \<Rightarrow> Inl SyntaxError
         | b # rest \<Rightarrow>
             if b = ''{''
             then (case flatFields rest of Some fs \<Rightarrow> Inr (JObj fs) | None \<Rightarrow> Inl SyntaxError)
             else Inl SyntaxError))"

text \<open>The session of \<open>admin\<close>, and an object that holds a password besides.\<close>

definition adminSession :: json where
  "adminSession = JObj [(''username'', JStr ''admin''), (''role'', JStr ''admin'')]"

definition withPassword :: json where
  "withPassword =
     JObj [(''username'', JStr ''admin''), (''role'', JStr ''admin''),
           (''password'', JStr ''secret'')]"

text \<open>
  Two parsed products, and a backend that rejects the first request it gets and resolves
  the others.
\<close>

definition pen :: product where
  "pen =
     \<lparr>name = ''Pen'', category = ''Books'', price = Num 2, stock = Num 30,
      description = [], url = None, updatedAt = Some june, id' = ''5''\<rparr>"

definition mug :: product where
  "mug =
     \<lparr>name = ''Mug'', category = ''Books'', price = Num 4, stock = Num 8,
      description = [], url = None, updatedAt = Some june, id' = ''7''\<rparr>"

definition firstFails :: "nat \<Rightarrow> product \<Rightarrow> bool \<times> nat" where
  "firstFails k p = (0 < k, Suc k)"

text \<open>A file of a header and three lines, the second without a price.\<close>

definition threeLines :: string where
  "threeLines =
     csvHeader @ [nl] @ ''5,Pen,Books,2,30'' @ [nl] @ ''6,Cap,Clothing,,12'' @ [nl] @
     ''7,Mug,Books,4,8''"

text \<open>A product with a double quote in its name.\<close>

definition monitor :: product where
  "monitor =
     \<lparr>name = ''19'' @ [dq] @ '' Monitor'', category = ''Electronics'', price = Num 120,
      stock = Num 4, description = [], url = None, updatedAt = None, id' = ''9''\<rparr>"

section \<open>Duplicate names are rejected\<close>

text \<open>
  C2. A candidate whose name matches an entry of the collection without regard to case
  makes \<open>addProduct\<close> end in the duplicate branch, and an update whose name matches a
  record with another identifier makes \<open>updateProduct\<close> end there: the only event is
  the duplicate notification, and the state, the collection with it, is the one before.
\<close>

theorem duplicate_rejected:
  "((\<exists>p \<in> set (products st). toLowerCase (name p) = toLowerCase (name candidate)) \<longrightarrow>
      addProduct response candidate st =
        (Some DuplicateError, st, [duplicateToast (name candidate)])) \<and>
   ((\<exists>p \<in> set (products st).
        toLowerCase (name p) = toLowerCase (name updated) \<and> id' p \<noteq> id' updated) \<longrightarrow>
      updateProduct String response' updated st =
        (Some DuplicateError, st, [duplicateToast (name updated)]))"
  by (simp add: addProduct_def updateProduct_def)

text \<open>
  The scenario of the specification: \<open>widget\<close> is added to a collection that holds
  \<open>Widget\<close>, and the other product is renamed to \<open>WIDGET\<close>.
\<close>

theorem duplicate_rejected_witness:
  "(\<exists>p \<in> set (products shop). toLowerCase (name p) = toLowerCase (name lowerWidget)) \<and>
   addProduct (Resolved widgetTwin) lowerWidget shop =
     (Some DuplicateError, shop, [duplicateToast ''widget'']) \<and>
   (\<exists>p \<in> set (products shop).
      toLowerCase (name p) = toLowerCase (name renamedGadget) \<and> id' p \<noteq> id' renamedGadget) \<and>
   updateProduct numberText (Resolved renamedGadget) renamedGadget shop =
     (Some DuplicateError, shop, [duplicateToast ''WIDGET''])"
proof -
  have a: "\<exists>p \<in> set (products shop). toLowerCase (name p) = toLowerCase (name lowerWidget)"
    by code_simp
  have u: "\<exists>p \<in> set (products shop).
      toLowerCase (name p) = toLowerCase (name renamedGadget) \<and> id' p \<noteq> id' renamedGadget"
    by code_simp
  have n: "name lowerWidget = ''widget''" "name renamedGadget = ''WIDGET''"
    by (simp_all add: lowerWidget_def renamedGadget_def)
  show ?thesis
    using a u n
      duplicate_rejected [of shop lowerWidget "Resolved widgetTwin" renamedGadget numberText
        "Resolved renamedGadget"]
    by simp
qed

section \<open>Unique names\<close>

lemma uniqueNames_snoc:
  "uniqueNames (ps @ [d]) =
     (uniqueNames ps \<and> (\<forall>p \<in> set ps. toLowerCase (name p) \<noteq> toLowerCase (name d)))"
  by (auto simp: uniqueNames_def image_iff)

lemma map_other_ids:
  "i \<notin> set (map id' ps) \<Longrightarrow> map (\<lambda>p. if id' p = i then d else p) ps = ps"
  by (induction ps) auto

lemma ids_replace:
  "id' d = i \<Longrightarrow> map id' (map (\<lambda>p. if id' p = i then d else p) ps) = map id' ps"
  by (induction ps) auto

text \<open>
  Replacing the record of one identifier keeps the names unique when no record of another
  identifier has the new name.
\<close>

lemma uniqueNames_replace:
  "uniqueNames ps \<Longrightarrow> distinct (map id' ps) \<Longrightarrow>
   \<forall>p \<in> set ps. toLowerCase (name p) = toLowerCase (name d) \<longrightarrow> id' p = i \<Longrightarrow>
   uniqueNames (map (\<lambda>p. if id' p = i then d else p) ps)"
proof (induction ps)
  case Nil
  then show ?case by (simp add: uniqueNames_def)
next
  case (Cons q qs)
  have rest: "uniqueNames (map (\<lambda>p. if id' p = i then d else p) qs)"
    using Cons by (simp add: uniqueNames_def)
  show ?case
  proof (cases "id' q = i")
    case True
    then have fresh: "i \<notin> set (map id' qs)" using Cons.prems(2) by auto
    then have same: "map (\<lambda>p. if id' p = i then d else p) qs = qs"
      by (rule map_other_ids)
    have "\<forall>p \<in> set qs. toLowerCase (name p) \<noteq> toLowerCase (name d)"
    proof
      fix p
      assume p: "p \<in> set qs"
      show "toLowerCase (name p) \<noteq> toLowerCase (name d)"
      proof
        assume "toLowerCase (name p) = toLowerCase (name d)"
        then have "id' p = i" using Cons.prems(3) p by simp
        then show False using p fresh by auto
      qed
    qed
    then show ?thesis
      using True same Cons.prems(1) by (auto simp: uniqueNames_def)
  next
    case False
    then have nd: "toLowerCase (name q) \<noteq> toLowerCase (name d)"
      using Cons.prems(3) by auto
    have "\<forall>x \<in> set qs.
            toLowerCase (name q) \<noteq> toLowerCase (name (if id' x = i then d else x))"
      using nd Cons.prems(1) by (auto simp: uniqueNames_def image_iff)
    then have "toLowerCase (name q) \<notin>
            set (map (\<lambda>p. toLowerCase (name p)) (map (\<lambda>p. if id' p = i then d else p) qs))"
      by (simp add: image_iff)
    then show ?thesis
      using False rest by (simp add: uniqueNames_def)
  qed
qed

lemma requests_duplicateToast: "requests [duplicateToast n] = []"
  by (simp add: requests_def duplicateToast_def)

text \<open>
  C1, as amended. From a collection with unique names and distinct identifiers,
  \<open>addProduct\<close> and \<open>updateProduct\<close> turn a colliding name down with no request and no
  change of state, and the collection they commit, when the backend answers with the
  submitted name (a creation under a new identifier, a replacement under the same one),
  has unique names and distinct identifiers again. \<open>fetchProducts\<close> installs the list
  of the backend as it is.
\<close>

theorem names_stay_unique:
  "consistent (products st) \<Longrightarrow>
   ((\<exists>p \<in> set (products st). toLowerCase (name p) = toLowerCase (name candidate)) \<longrightarrow>
      fst (snd (addProduct response candidate st)) = st \<and>
      requests (snd (snd (addProduct response candidate st))) = []) \<and>
   ((\<exists>p \<in> set (products st).
        toLowerCase (name p) = toLowerCase (name updated) \<and> id' p \<noteq> id' updated) \<longrightarrow>
      fst (snd (updateProduct String response' updated st)) = st \<and>
      requests (snd (snd (updateProduct String response' updated st))) = []) \<and>
   (created candidate (products st) response \<longrightarrow>
      consistent (products (fst (snd (addProduct response candidate st))))) \<and>
   (replaced updated response' \<longrightarrow>
      consistent (products (fst (snd (updateProduct String response' updated st))))) \<and>
   products (fst (fetchProducts String (Resolved fetched) st)) = fetched"
proof (intro conjI impI)
  show "products (fst (fetchProducts String (Resolved fetched) st)) = fetched"
    by (simp add: fetchProducts_def)
next
  assume "\<exists>p \<in> set (products st). toLowerCase (name p) = toLowerCase (name candidate)"
  then show "fst (snd (addProduct response candidate st)) = st"
    and "requests (snd (snd (addProduct response candidate st))) = []"
    by (simp_all add: addProduct_def requests_duplicateToast)
next
  assume "\<exists>p \<in> set (products st).
        toLowerCase (name p) = toLowerCase (name updated) \<and> id' p \<noteq> id' updated"
  then show "fst (snd (updateProduct String response' updated st)) = st"
    and "requests (snd (snd (updateProduct String response' updated st))) = []"
    by (simp_all add: updateProduct_def requests_duplicateToast)
next
  assume inv: "consistent (products st)" and ok: "created candidate (products st) response"
  show "consistent (products (fst (snd (addProduct response candidate st))))"
  proof (cases response)
    case Rejected
    then show ?thesis using inv by (simp add: addProduct_def)
  next
    case (Resolved data)
    then show ?thesis
      using inv ok
      by (auto simp: addProduct_def created_def consistent_def uniqueNames_snoc)
  qed
next
  assume inv: "consistent (products st)" and ok: "replaced updated response'"
  show "consistent (products (fst (snd (updateProduct String response' updated st))))"
  proof (cases response')
    case Rejected
    then show ?thesis using inv by (simp add: updateProduct_def)
  next
    case (Resolved data)
    show ?thesis
    proof (cases "\<exists>p \<in> set (products st).
        toLowerCase (name p) = toLowerCase (name updated) \<and> id' p \<noteq> id' updated")
      case True
      then show ?thesis using inv by (simp add: updateProduct_def)
    next
      case False
      have nm: "name data = name updated" and idd: "id' data = id' updated"
        using ok Resolved by (simp_all add: replaced_def)
      have "\<forall>p \<in> set (products st).
              toLowerCase (name p) = toLowerCase (name data) \<longrightarrow> id' p = id' updated"
        using False nm by auto
      then have "uniqueNames
          (map (\<lambda>p. if id' p = id' updated then data else p) (products st))"
        using inv by (intro uniqueNames_replace) (simp_all add: consistent_def)
      moreover have "distinct
          (map id' (map (\<lambda>p. if id' p = id' updated then data else p) (products st)))"
        using inv idd by (simp add: ids_replace consistent_def del: map_map)
      ultimately show ?thesis
        unfolding updateProduct_def if_not_P [OF False] Resolved
        by (simp add: consistent_def del: map_map)
    qed
  qed
qed

text \<open>
  The collection of the examples: \<open>widget\<close> is turned down next to \<open>Widget\<close>, the
  renaming of the other product to \<open>WIDGET\<close> too, and a new product and a change of
  stock are committed.
\<close>

theorem names_stay_unique_witness:
  "consistent (products shop) \<and>
   (\<exists>p \<in> set (products shop). toLowerCase (name p) = toLowerCase (name lowerWidget)) \<and>
   fst (snd (addProduct (Resolved widgetTwin) lowerWidget shop)) = shop \<and>
   requests (snd (snd (addProduct (Resolved widgetTwin) lowerWidget shop))) = [] \<and>
   (\<exists>p \<in> set (products shop).
      toLowerCase (name p) = toLowerCase (name renamedGadget) \<and> id' p \<noteq> id' renamedGadget) \<and>
   fst (snd (updateProduct numberText (Resolved renamedGadget) renamedGadget shop)) = shop \<and>
   requests (snd (snd (updateProduct numberText (Resolved renamedGadget) renamedGadget shop))) = [] \<and>
   created gizmoDraft (products shop) (Resolved gizmo) \<and>
   consistent (products (fst (snd (addProduct (Resolved gizmo) gizmoDraft shop)))) \<and>
   replaced restocked (Resolved restocked) \<and>
   consistent (products (fst (snd (updateProduct numberText (Resolved restocked) restocked shop))))"
proof -
  have inv: "consistent (products shop)"
    by code_simp
  have a: "\<exists>p \<in> set (products shop). toLowerCase (name p) = toLowerCase (name lowerWidget)"
    by code_simp
  have u: "\<exists>p \<in> set (products shop).
      toLowerCase (name p) = toLowerCase (name renamedGadget) \<and> id' p \<noteq> id' renamedGadget"
    by code_simp
  have c: "created gizmoDraft (products shop) (Resolved gizmo)"
    by code_simp
  have r: "replaced restocked (Resolved restocked)"
    by (simp add: replaced_def)
  show ?thesis
    using inv a u c r
      names_stay_unique [OF inv, of lowerWidget "Resolved widgetTwin" renamedGadget numberText
        "Resolved renamedGadget"]
      names_stay_unique [OF inv, of gizmoDraft "Resolved gizmo" restocked numberText
        "Resolved restocked"]
    by simp
qed

text \<open>
  The claim as stated fails: \<open>fetchProducts\<close> installs the list of the backend as it
  is, here with \<open>Widget\<close> and \<open>widget\<close> side by side.
\<close>

theorem load_installs_duplicates:
  "\<not> uniqueNames
       (products (fst (fetchProducts numberText (Resolved [widget, widgetTwin]) shop)))"
  by code_simp

section \<open>Low stock\<close>

lemma concat_map_if:
  "concat (map (\<lambda>x. if P x then [f x] else []) xs) = map f (filter P xs)"
  by (induction xs) auto

lemma toasts_lowStock: "toasts (map (lowStockToast String) ps) = map (lowStockToast String) ps"
  by (induction ps) (auto simp: toasts_def lowStockToast_def)

lemma showToast_keyed: "showToast e shown = shown ++ map_of (keyed [e])"
  by (cases "(e, shown)" rule: showToast.cases) (auto simp: keyed_def)

text \<open>The keyed store after a run of events: a later notification overrides an earlier one.\<close>

lemma showAll_keyed: "showAll evs shown = shown ++ map_of (rev (keyed evs))"
  unfolding showAll_def
proof (induction evs arbitrary: shown)
  case Nil
  then show ?case by (simp add: keyed_def)
next
  case (Cons e evs)
  have "fold showToast (e # evs) shown = fold showToast evs (showToast e shown)"
    by simp
  also have "\<dots> = showToast e shown ++ map_of (rev (keyed evs))"
    by (rule Cons)
  also have "\<dots> = (shown ++ map_of (keyed [e])) ++ map_of (rev (keyed evs))"
    by (simp only: showToast_keyed)
  also have "\<dots> = shown ++ map_of (rev (keyed (e # evs)))"
    by (cases "(e, shown)" rule: showToast.cases) (auto simp: keyed_def)
  finally show ?case .
qed

lemma showAll_twice: "showAll evs (showAll evs shown) = showAll evs shown"
  unfolding showAll_keyed
  by (rule ext) (simp add: map_add_def split: option.splits)

lemma keyed_lowStock:
  "keyed (Request r # map (lowStockToast String) ps) =
     map (\<lambda>p. (''low-stock-'' @ id' p,
        ''Low stock alert: '' @ name p @ '' has only '' @ String (stock p) @ '' units left!'')) ps"
  by (induction ps) (auto simp: keyed_def lowStockToast_def)

text \<open>
  C6. A resolved \<open>fetchProducts\<close> raises the low-stock notification for exactly the
  fetched products whose stock is below 10, in their order. Each is keyed by the
  identifier of its product: the keys shown afterwards are those of the products below
  the threshold, and raising the same notifications again leaves the keyed store as it
  is. For \<open>Widget\<close> with 5 units and \<open>Gadget\<close> with 50 the only notification is the one
  for \<open>Widget\<close>.
\<close>

theorem low_stock_notifications:
  "toasts (snd (fetchProducts String (Resolved fetched) st)) =
     map (lowStockToast String) (filter (\<lambda>p. lt (stock p) (Num 10)) fetched) \<and>
   dom (showAll (snd (fetchProducts String (Resolved fetched) st)) Map.empty) =
     (\<lambda>p. ''low-stock-'' @ id' p) ` {p \<in> set fetched. lt (stock p) (Num 10)} \<and>
   showAll (snd (fetchProducts String (Resolved fetched) st))
     (showAll (snd (fetchProducts String (Resolved fetched) st)) shown) =
     showAll (snd (fetchProducts String (Resolved fetched) st)) shown \<and>
   toasts (snd (fetchProducts String (Resolved [widget, gadget]) st)) =
     [lowStockToast String widget]"
proof (intro conjI)
  have evs: "snd (fetchProducts String (Resolved xs) st) =
      Request (Get productsUrl) #
      map (lowStockToast String) (filter (\<lambda>p. lt (stock p) (Num 10)) xs)" for xs
    by (simp add: fetchProducts_def concat_map_if)
  show "toasts (snd (fetchProducts String (Resolved fetched) st)) =
     map (lowStockToast String) (filter (\<lambda>p. lt (stock p) (Num 10)) fetched)"
    unfolding evs using toasts_lowStock by (simp add: toasts_def)
  show "dom (showAll (snd (fetchProducts String (Resolved fetched) st)) Map.empty) =
     (\<lambda>p. ''low-stock-'' @ id' p) ` {p \<in> set fetched. lt (stock p) (Num 10)}"
    unfolding evs showAll_keyed keyed_lowStock
    by (auto simp: dom_map_of_conv_image_fst image_iff)
  show "showAll (snd (fetchProducts String (Resolved fetched) st))
     (showAll (snd (fetchProducts String (Resolved fetched) st)) shown) =
     showAll (snd (fetchProducts String (Resolved fetched) st)) shown"
    by (rule showAll_twice)
  show "toasts (snd (fetchProducts String (Resolved [widget, gadget]) st)) =
     [lowStockToast String widget]"
    unfolding evs using toasts_lowStock [of String "[widget]"]
    by (simp add: toasts_def widget_def gadget_def)
qed

section \<open>The session\<close>

text \<open>
  C7. With the list of accounts fetched, \<open>login\<close> succeeds exactly when some account has
  the given name and the given password, both compared as they are. On success the
  session in memory is the object of the name and the role of the first such account, and
  the local storage holds its text. Without a match the call fails with the
  authentication error and the state is the one before.
\<close>

theorem login_matches:
  "(fst (login S (Resolved users) u p st) = None) =
     (\<exists>a \<in> set users. username a = u \<and> password a = p) \<and>
   (\<forall>a. find (\<lambda>a. username a = u \<and> password a = p) users = Some a \<longrightarrow>
      login S (Resolved users) u p st =
        (None,
         \<lparr>user = JObj [(''username'', JStr (username a)), (''role'', JStr (role a))],
          localStorage =
            Some (S (JObj [(''username'', JStr (username a)), (''role'', JStr (role a))]))\<rparr>)) \<and>
   (\<not> (\<exists>a \<in> set users. username a = u \<and> password a = p) \<longrightarrow>
      login S (Resolved users) u p st = (Some AuthenticationError, st))"
proof (intro conjI allI impI)
  show "(fst (login S (Resolved users) u p st) = None) =
     (\<exists>a \<in> set users. username a = u \<and> password a = p)"
  proof (cases "find (\<lambda>a. username a = u \<and> password a = p) users")
    case None
    have "\<not> (\<exists>a \<in> set users. username a = u \<and> password a = p)"
      using None by (simp add: find_None_iff)
    moreover have "fst (login S (Resolved users) u p st) = Some AuthenticationError"
      by (simp add: login_def None)
    ultimately show ?thesis by simp
  next
    case (Some a)
    have "a \<in> set users \<and> username a = u \<and> password a = p"
      using Some by (auto simp: find_Some_iff)
    moreover have "fst (login S (Resolved users) u p st) = None"
      by (simp add: login_def Some)
    ultimately show ?thesis by auto
  qed
next
  fix a
  assume "find (\<lambda>a. username a = u \<and> password a = p) users = Some a"
  then show "login S (Resolved users) u p st =
        (None,
         \<lparr>user = JObj [(''username'', JStr (username a)), (''role'', JStr (role a))],
          localStorage =
            Some (S (JObj [(''username'', JStr (username a)), (''role'', JStr (role a))]))\<rparr>)"
    by (simp add: login_def setUser_def syncStorage_def userData_def)
next
  assume "\<not> (\<exists>a \<in> set users. username a = u \<and> password a = p)"
  then have "find (\<lambda>a. username a = u \<and> password a = p) users = None"
    by (simp add: find_None_iff)
  then show "login S (Resolved users) u p st = (Some AuthenticationError, st)"
    by (simp add: login_def)
qed

text \<open>
  The scenario of the specification: \<open>admin\<close> with a wrong password is turned down and
  the session stays anonymous; with the right one the session is stored.
\<close>

theorem login_matches_witness:
  "\<not> (\<exists>a \<in> set [admin]. username a = ''admin'' \<and> password a = ''wrong'') \<and>
   login jsonText (Resolved [admin]) ''admin'' ''wrong'' anonymous =
     (Some AuthenticationError, anonymous) \<and>
   find (\<lambda>a. username a = ''admin'' \<and> password a = ''secret'') [admin] = Some admin \<and>
   login jsonText (Resolved [admin]) ''admin'' ''secret'' anonymous =
     (None,
      \<lparr>user = JObj [(''username'', JStr ''admin''), (''role'', JStr ''admin'')],
       localStorage =
         Some (jsonText (JObj [(''username'', JStr ''admin''), (''role'', JStr ''admin'')]))\<rparr>)"
proof -
  have no: "\<not> (\<exists>a \<in> set [admin]. username a = ''admin'' \<and> password a = ''wrong'')"
    by (simp add: admin_def)
  have yes: "find (\<lambda>a. username a = ''admin'' \<and> password a = ''secret'') [admin] = Some admin"
    by (simp add: admin_def)
  have f: "username admin = ''admin''" "role admin = ''admin''"
    by (simp_all add: admin_def)
  show ?thesis
    using no yes f
      login_matches [of jsonText "[admin]" "''admin''" "''wrong''" anonymous]
      login_matches [of jsonText "[admin]" "''admin''" "''secret''" anonymous]
    by simp
qed

text \<open>
  C8, as amended. Without a persisted entry, or with an empty one, the session restored at
  startup is anonymous. A text that \<open>JSON.parse\<close> accepts gives the parsed value as the
  session, and the storage is written again from it (removed when the value is falsy, as
  \<open>null\<close> is). A text that \<open>JSON.parse\<close> rejects makes the restoration fail with the
  error of the parser.
\<close>

theorem restore_session:
  "AuthProvider JSON_parse JSON_stringify None = Inr anonymous \<and>
   AuthProvider JSON_parse JSON_stringify (Some []) = Inr anonymous \<and>
   (s \<noteq> [] \<longrightarrow>
      AuthProvider JSON_parse JSON_stringify (Some s) =
        (case JSON_parse s of
           Inl e \<Rightarrow> Inl e
         | Inr v \<Rightarrow>
             Inr \<lparr>user = v,
                  localStorage = (if truthy v then Some (JSON_stringify v) else None)\<rparr>))"
  by (auto simp: AuthProvider_def syncStorage_def anonymous_def split: sum.splits)

text \<open>A stored session is read back, and the text \<open>null\<close> gives the anonymous session.\<close>

theorem restore_session_witness:
  "jsonText adminSession \<noteq> [] \<and>
   AuthProvider parseFlat jsonText (Some (jsonText adminSession)) =
     Inr \<lparr>user = adminSession, localStorage = Some (jsonText adminSession)\<rparr> \<and>
   AuthProvider parseFlat jsonText (Some ''null'') = Inr anonymous"
proof -
  have t: "jsonText adminSession \<noteq> []"
    by (simp add: adminSession_def)
  have p: "parseFlat (jsonText adminSession) = Inr adminSession"
    by code_simp
  have n: "parseFlat ''null'' = Inr JNull"
    by (simp add: parseFlat_def)
  have tr: "truthy adminSession"
    by (simp add: adminSession_def)
  show ?thesis
    using t p n tr
      restore_session [of parseFlat jsonText "jsonText adminSession"]
      restore_session [of parseFlat jsonText "''null''"]
    by (simp add: anonymous_def)
qed

text \<open>
  The claim as stated fails: the entry \<open>{bad\<close> is malformed, and the restoration throws
  the syntax error instead of giving the anonymous session.
\<close>

theorem restore_malformed_fails:
  "AuthProvider parseFlat jsonText (Some ''{bad'') = Inl SyntaxError"
  by code_simp

lemma persisted_setUser: "persisted S (setUser S v st)"
  by (simp add: persisted_def setUser_def syncStorage_def)

text \<open>
  C10, as amended. After a successful \<open>login\<close> the session, in memory and as text in
  the local storage, is the object of the two fields \<open>username\<close> and \<open>role\<close> of the
  matched account: the password is not in it. A \<open>logout\<close> leaves no session and no
  entry. After every operation the persisted entry is the text of the session in memory,
  or absent without one. A restoration installs the value \<open>JSON.parse\<close> returns for the
  persisted entry, whatever its fields: it gives back the session a login stored, when
  \<open>JSON.parse\<close> reads the text of that session back.
\<close>

theorem session_without_password:
  "(fst (login S (Resolved users) u p st) = None \<longrightarrow>
      (\<exists>a \<in> set users. username a = u \<and> password a = p \<and>
         snd (login S (Resolved users) u p st) =
           \<lparr>user = userData a, localStorage = Some (S (userData a))\<rparr> \<and>
         fieldNames (userData a) = [''username'', ''role''])) \<and>
   (persisted S st \<longrightarrow> persisted S (snd (login S response u p st))) \<and>
   logout S st = anonymous \<and>
   (\<forall>st'. AuthProvider JSON_parse S savedUser = Inr st' \<longrightarrow>
      persisted S st' \<and>
      (if falsy savedUser then user st' = JNull
       else JSON_parse (the savedUser) = Inr (user st'))) \<and>
   (JSON_parse (S (userData a)) = Inr (userData a) \<and> S (userData a) \<noteq> [] \<longrightarrow>
      AuthProvider JSON_parse S (Some (S (userData a))) =
        Inr \<lparr>user = userData a, localStorage = Some (S (userData a))\<rparr>)"
proof (intro conjI allI impI)
  assume ok: "fst (login S (Resolved users) u p st) = None"
  show "\<exists>a \<in> set users. username a = u \<and> password a = p \<and>
         snd (login S (Resolved users) u p st) =
           \<lparr>user = userData a, localStorage = Some (S (userData a))\<rparr> \<and>
         fieldNames (userData a) = [''username'', ''role'']"
  proof (cases "find (\<lambda>a. username a = u \<and> password a = p) users")
    case None
    then show ?thesis using ok by (simp add: login_def)
  next
    case (Some a)
    have "a \<in> set users \<and> username a = u \<and> password a = p"
      using Some by (auto simp: find_Some_iff)
    moreover have "snd (login S (Resolved users) u p st) =
        \<lparr>user = userData a, localStorage = Some (S (userData a))\<rparr>"
      by (simp add: login_def Some setUser_def syncStorage_def userData_def)
    moreover have "fieldNames (userData a) = [''username'', ''role'']"
      by (simp add: userData_def)
    ultimately show ?thesis by blast
  qed
next
  assume "persisted S st"
  then show "persisted S (snd (login S response u p st))"
    by (simp add: login_def persisted_setUser split: response.splits option.splits)
next
  show "logout S st = anonymous"
    by (simp add: logout_def setUser_def syncStorage_def anonymous_def)
next
  fix st'
  assume r: "AuthProvider JSON_parse S savedUser = Inr st'"
  then show "persisted S st'"
    by (auto simp: AuthProvider_def persisted_def syncStorage_def
          split: if_splits sum.splits)
  from r show "if falsy savedUser then user st' = JNull
       else JSON_parse (the savedUser) = Inr (user st')"
    by (auto simp: AuthProvider_def syncStorage_def split: if_splits sum.splits)
next
  assume "JSON_parse (S (userData a)) = Inr (userData a) \<and> S (userData a) \<noteq> []"
  then show "AuthProvider JSON_parse S (Some (S (userData a))) =
        Inr \<lparr>user = userData a, localStorage = Some (S (userData a))\<rparr>"
    by (simp add: AuthProvider_def syncStorage_def userData_def)
qed

text \<open>The login of \<open>admin\<close>, and the restoration of the session it stored.\<close>

theorem session_without_password_witness:
  "fst (login jsonText (Resolved [admin]) ''admin'' ''secret'' anonymous) = None \<and>
   snd (login jsonText (Resolved [admin]) ''admin'' ''secret'' anonymous) =
     \<lparr>user = adminSession, localStorage = Some (jsonText adminSession)\<rparr> \<and>
   persisted jsonText anonymous \<and>
   persisted jsonText (snd (login jsonText (Resolved [admin]) ''admin'' ''secret'' anonymous)) \<and>
   parseFlat (jsonText (userData admin)) = Inr (userData admin) \<and>
   jsonText (userData admin) \<noteq> [] \<and>
   AuthProvider parseFlat jsonText (Some (jsonText adminSession)) =
     Inr \<lparr>user = adminSession, localStorage = Some (jsonText adminSession)\<rparr> \<and>
   persisted jsonText \<lparr>user = adminSession, localStorage = Some (jsonText adminSession)\<rparr>"
proof -
  have ok: "fst (login jsonText (Resolved [admin]) ''admin'' ''secret'' anonymous) = None"
    by (simp add: login_def admin_def)
  have d: "userData admin = adminSession"
    by (simp add: userData_def admin_def adminSession_def)
  have inv: "persisted jsonText anonymous"
    by (simp add: persisted_def anonymous_def)
  have readBack: "parseFlat (jsonText adminSession) = Inr adminSession"
    by code_simp
  have ne: "jsonText adminSession \<noteq> []"
    by (simp add: adminSession_def)
  show ?thesis
    using ok d inv readBack ne
      session_without_password [of jsonText "[admin]" "''admin''" "''secret''" anonymous
        "Resolved [admin]" parseFlat "Some (jsonText adminSession)" admin]
    by (simp add: admin_def)
qed

text \<open>
  The claim as stated fails: a persisted entry that holds a password besides the name and
  the role is restored with it, as the session in memory, and written to the storage
  again.
\<close>

theorem restore_keeps_password:
  "AuthProvider parseFlat jsonText (Some (jsonText withPassword)) =
     Inr \<lparr>user = withPassword, localStorage = Some (jsonText withPassword)\<rparr> \<and>
   fieldNames withPassword = [''username'', ''role'', ''password''] \<and>
   (''password'', JStr ''secret'') \<in> set (case withPassword of JObj fs \<Rightarrow> fs | _ \<Rightarrow> [])"
  by code_simp

section \<open>Bulk import\<close>

lemma take_five:
  "5 \<le> length fs \<Longrightarrow> take 5 fs = [fs ! 0, fs ! 1, fs ! 2, fs ! 3, fs ! 4]"
proof -
  assume "5 \<le> length fs"
  then obtain a b c d e r where "fs = a # b # c # d # e # r"
    by (auto simp: eval_nat_numeral Suc_le_length_iff)
  then show ?thesis by simp
qed

lemma parseLine_fiveFields: "(parseLine Number now line \<noteq> None) = fiveFields line"
proof (cases "5 \<le> length (split CHR '','' line)")
  case True
  then show ?thesis
    by (auto simp: parseLine_def fiveFields_def field_def Let_def take_five)
next
  case False
  then show ?thesis
    by (auto simp: parseLine_def fiveFields_def field_def Let_def)
qed

lemma parseLine_Some_fiveFields: "(\<exists>p. parseLine Number now line = Some p) = fiveFields line"
  using parseLine_fiveFields [of Number now line] by auto

lemma newProducts_fiveFields:
  "newProducts Number now text =
     map (\<lambda>line. the (parseLine Number now line)) (filter fiveFields (tl (split nl text)))"
  by (simp add: newProducts_def filter_map comp_def parseLine_Some_fiveFields)

lemma length_answers: "length (answers post b ps) = length ps"
  by (induction ps arbitrary: b) (auto split: prod.splits)

text \<open>The loop, without the state of the backend: the events of each product in turn.\<close>

lemma uploadLoop_events:
  "uploadLoop post ps b k = (evs, n, b') \<Longrightarrow>
   evs = concat (map uploadEvents (zip ps (answers post b ps))) \<and>
   n = k + length (filter (\<lambda>ok. ok) (answers post b ps))"
proof (induction ps arbitrary: b k evs n b')
  case Nil
  then show ?case by simp
next
  case (Cons p ps)
  obtain ok b1 where ans: "post b p = (ok, b1)"
    by (cases "post b p") auto
  obtain evs1 n1 b2 where
    rest: "uploadLoop post ps b1 (if ok then k + 1 else k) = (evs1, n1, b2)"
    by (cases "uploadLoop post ps b1 (if ok then k + 1 else k)") auto
  note ih = Cons.IH [OF rest]
  show ?case
  proof (cases ok)
    case True
    then show ?thesis
      using Cons.prems ans rest ih by (auto simp: uploadEvents_def payload_def)
  next
    case False
    then show ?thesis
      using Cons.prems ans rest ih by (auto simp: uploadEvents_def)
  qed
qed

lemma posted_uploadEvents:
  "length as = length ps \<Longrightarrow> posted (concat (map uploadEvents (zip ps as))) = ps"
  by (induction ps as rule: list_induct2') (auto simp: posted_def uploadEvents_def)

lemma handedOn_uploadEvents:
  "handedOn (concat (map uploadEvents (zip ps as))) =
     map (\<lambda>pa. payload (fst pa)) (filter snd (zip ps as))"
  by (induction ps as rule: list_induct2') (auto simp: handedOn_def uploadEvents_def)

lemma posted_append: "posted (xs @ ys) = posted xs @ posted ys"
  by (simp add: posted_def)

lemma handedOn_append: "handedOn (xs @ ys) = handedOn xs @ handedOn ys"
  by (simp add: handedOn_def)

text \<open>
  C3, as amended. A line is parsed exactly when its first five fields are there and none
  is empty, and the parsed products are those of the lines after the header that are so,
  in order. The backend answers every one of them. The events of the import are, for each
  parsed product in turn, its creation request, followed by the call of \<open>onAdd\<close> with
  its payload when the request resolved and by the notification of the failure when it
  did not; and after them all, last, the count of the resolved requests when it is
  positive, and nothing otherwise. So one request is sent for each parsed product
  whatever the answers to the others, and the payloads handed to \<open>onAdd\<close> are those of
  the products whose request resolved.
\<close>

theorem bulk_upload:
  "(parseLine Number now line \<noteq> None) = fiveFields line \<and>
   newProducts Number now text =
     map (\<lambda>line. the (parseLine Number now line)) (filter fiveFields (tl (split nl text))) \<and>
   length (answers post b (newProducts Number now text)) =
     length (newProducts Number now text) \<and>
   fst (handleBulkUpload Number String now post b (Some text)) =
     concat (map uploadEvents
       (zip (newProducts Number now text) (answers post b (newProducts Number now text)))) @
     (if 0 < length (filter (\<lambda>ok. ok) (answers post b (newProducts Number now text)))
      then [successToast String
              (length (filter (\<lambda>ok. ok) (answers post b (newProducts Number now text))))]
      else []) \<and>
   fst (snd (handleBulkUpload Number String now post b (Some text))) =
     length (filter (\<lambda>ok. ok) (answers post b (newProducts Number now text))) \<and>
   posted (fst (handleBulkUpload Number String now post b (Some text))) =
     newProducts Number now text \<and>
   handedOn (fst (handleBulkUpload Number String now post b (Some text))) =
     map (\<lambda>pa. payload (fst pa))
       (filter snd
         (zip (newProducts Number now text) (answers post b (newProducts Number now text))))"
proof -
  define ps where "ps = newProducts Number now text"
  obtain evs n b' where loop: "uploadLoop post ps b 0 = (evs, n, b')"
    by (cases "uploadLoop post ps b 0") auto
  note facts = uploadLoop_events [OF loop]
  have e: "evs = concat (map uploadEvents (zip ps (answers post b ps)))"
    and c: "n = length (filter (\<lambda>ok. ok) (answers post b ps))"
    using facts by simp_all
  have call: "handleBulkUpload Number String now post b (Some text) =
      (evs @ (if 0 < n then [successToast String n] else []), n, b')"
    using loop by (simp add: handleBulkUpload_def ps_def successToast_def)
  have p: "posted (evs @ (if 0 < n then [successToast String n] else [])) = ps"
    unfolding e
    by (simp add: posted_append posted_uploadEvents length_answers)
       (simp add: posted_def successToast_def)
  have h: "handedOn (evs @ (if 0 < n then [successToast String n] else [])) =
      map (\<lambda>pa. payload (fst pa)) (filter snd (zip ps (answers post b ps)))"
    unfolding e
    by (simp add: handedOn_append handedOn_uploadEvents)
       (simp add: handedOn_def successToast_def)
  show ?thesis
    unfolding call ps_def [symmetric]
    using p h e c
    by (simp add: parseLine_Some_fiveFields length_answers)
       (simp add: ps_def newProducts_fiveFields)
qed

text \<open>
  The scenario of the specification: of three lines one has an empty price, two requests
  are sent, and with both resolved the count reported is 2. With the first request
  rejected the second is sent all the same, and the count reported is 1.
\<close>

theorem bulk_upload_witness:
  "filter fiveFields (tl (split nl threeLines)) = [''5,Pen,Books,2,30'', ''7,Mug,Books,4,8''] \<and>
   newProducts textNumber june threeLines = [pen, mug] \<and>
   fst (handleBulkUpload textNumber numberText june resolving () (Some threeLines)) =
     [Request (PostProduct ''/api/products'' pen), OnAdd (payload pen),
      Request (PostProduct ''/api/products'' mug), OnAdd (payload mug),
      successToast numberText 2] \<and>
   fst (snd (handleBulkUpload textNumber numberText june resolving () (Some threeLines))) = 2 \<and>
   fst (handleBulkUpload textNumber numberText june firstFails 0 (Some threeLines)) =
     [Request (PostProduct ''/api/products'' pen),
      Toast Failure (''Failed to upload '' @ quoted ''Pen'') None,
      Request (PostProduct ''/api/products'' mug), OnAdd (payload mug),
      successToast numberText 1] \<and>
   fst (snd (handleBulkUpload textNumber numberText june firstFails 0 (Some threeLines))) = 1"
proof -
  have kept: "filter fiveFields (tl (split nl threeLines)) =
      [''5,Pen,Books,2,30'', ''7,Mug,Books,4,8'']"
    by code_simp
  have parsed: "newProducts textNumber june threeLines = [pen, mug]"
    by code_simp
  have names: "name pen = ''Pen''"
    by (simp add: pen_def)
  note all = bulk_upload [of textNumber june "[]" threeLines resolving "()" numberText]
  note one = bulk_upload [of textNumber june "[]" threeLines firstFails 0 numberText]
  have all_events:
    "fst (handleBulkUpload textNumber numberText june resolving () (Some threeLines)) =
     [Request (PostProduct ''/api/products'' pen), OnAdd (payload pen),
      Request (PostProduct ''/api/products'' mug), OnAdd (payload mug),
      successToast numberText 2]"
    using all by (simp add: parsed resolving_def uploadEvents_def numeral_2_eq_2)
  have all_count:
    "fst (snd (handleBulkUpload textNumber numberText june resolving () (Some threeLines))) = 2"
    using all by (simp add: parsed resolving_def)
  have one_events:
    "fst (handleBulkUpload textNumber numberText june firstFails 0 (Some threeLines)) =
     [Request (PostProduct ''/api/products'' pen),
      Toast Failure (''Failed to upload '' @ quoted ''Pen'') None,
      Request (PostProduct ''/api/products'' mug), OnAdd (payload mug),
      successToast numberText 1]"
    using one by (simp add: parsed firstFails_def uploadEvents_def names)
  have one_count:
    "fst (snd (handleBulkUpload textNumber numberText june firstFails 0 (Some threeLines))) = 1"
    using one by (simp add: parsed firstFails_def)
  show ?thesis
    using kept parsed all_events all_count one_events one_count by blast
qed

text \<open>
  The claim as stated fails: for a file with the header alone the import ends with no
  event at all, so no count is reported.
\<close>

theorem header_only_reports_nothing:
  "handleBulkUpload textNumber numberText june resolving () (Some csvHeader) = ([], 0, ())"
  by code_simp

text \<open>
  In the product list the payload handed to \<open>onAdd\<close> is the argument of \<open>addProduct\<close>:
  the duplicate check runs then, after the request of the import, and a new name makes
  \<open>addProduct\<close> send one more creation request.
\<close>

lemma addProduct_requests:
  "\<not> (\<exists>p \<in> set (products st). toLowerCase (name p) = toLowerCase (name product)) \<Longrightarrow>
   requests (snd (snd (addProduct response product st))) = [Post productsUrl product]"
  by (cases response) (simp_all add: addProduct_def requests_def)

section \<open>Export, and import of an exported file\<close>

lemma split_nonempty: "split c s \<noteq> []"
  by (induction s) (auto split: list.splits)

lemma split_plain: "c \<notin> set s \<Longrightarrow> split c s = [s]"
  by (induction s) auto

lemma split_append:
  "c \<notin> set f \<Longrightarrow> split c (f @ c # rest) = f # split c rest"
  by (induction f) (auto split: list.splits simp: split_nonempty)

lemma join_Cons: "xs \<noteq> [] \<Longrightarrow> join sep (x # xs) = x @ sep @ join sep xs"
  by (cases xs) simp_all

text \<open>Splitting undoes joining when no piece holds the separator.\<close>

lemma split_join:
  "fs \<noteq> [] \<Longrightarrow> \<forall>f \<in> set fs. c \<notin> set f \<Longrightarrow> split c (join [c] fs) = fs"
proof (induction fs rule: list_nonempty_induct)
  case (single x)
  then show ?case by (simp add: split_plain)
next
  case (cons x xs)
  then show ?case by (simp add: join_Cons split_append)
qed

lemma plain_quoted: "plain s \<Longrightarrow> plain (quoted s)"
  by (simp add: plain_def quoted_def dq_def nl_def)

lemma plain_doubleQuotes: "plain s \<Longrightarrow> plain (doubleQuotes s)"
  by (induction s) (auto simp: plain_def doubleQuotes_def dq_def nl_def)

lemma quoted_nonempty: "quoted s \<noteq> []"
  by (simp add: quoted_def)

lemma split_formRow:
  assumes "plainProduct String p"
  shows "split CHR '','' (formRow String p) =
       [quoted (id' p), quoted (name p), quoted (category p),
        quoted (String (price p)), quoted (String (stock p)),
        quoted (doubleQuotes (description p)),
        quoted (orElse (url p) []), quoted (orElse (updatedAt p) [])]"
proof -
  have "\<forall>f \<in> set [quoted (id' p), quoted (name p), quoted (category p),
        quoted (String (price p)), quoted (String (stock p)),
        quoted (doubleQuotes (description p)),
        quoted (orElse (url p) []), quoted (orElse (updatedAt p) [])]. CHR '','' \<notin> set f"
    using assms plain_quoted plain_doubleQuotes
    by (simp add: plainProduct_def) (simp add: plain_def)
  then show ?thesis
    unfolding formRow_def by (intro split_join) simp_all
qed

text \<open>The import keeps every exported row: a field between quotes is never empty.\<close>

lemma parseLine_formRow:
  assumes "plainProduct String p"
  shows "parseLine Number now (formRow String p) = Some (reimported Number String p)"
  by (simp add: parseLine_def split_formRow [OF assms] field_def reimported_def quoted_nonempty)

lemma nl_formRow:
  assumes "plainProduct String p"
  shows "nl \<notin> set (formRow String p)"
  using assms plain_quoted plain_doubleQuotes
  by (simp add: formRow_def plainProduct_def quoted_def nl_def dq_def plain_def doubleQuotes_def)

text \<open>
  The exported file: the header, then one row for each product, in order (for products
  whose fields hold no line break).
\<close>

lemma formCsvContent_lines:
  assumes "list_all (plainProduct String) ps"
  shows "split nl (formCsvContent String ps) = csvHeader # map (formRow String) ps"
proof -
  have "\<forall>f \<in> set (csvHeader # map (formRow String) ps). nl \<notin> set f"
    using assms nl_formRow by (auto simp: list_all_iff csvHeader_def nl_def)
  then show ?thesis
    unfolding formCsvContent_def by (simp add: split_join)
qed

text \<open>A name between quotes is longer than any name of the collection: the tuples differ.\<close>

lemma tuples_differ:
  assumes "ps \<noteq> []"
  shows "set (map tuple (map (reimported Number String) ps)) \<noteq> set (map tuple ps)"
proof
  assume eq: "set (map tuple (map (reimported Number String) ps)) = set (map tuple ps)"
  define m where "m = Max ((\<lambda>p. length (name p)) ` set ps)"
  have "m \<in> (\<lambda>p. length (name p)) ` set ps"
    unfolding m_def using assms by (intro Max_in) simp_all
  then obtain p where p: "p \<in> set ps" and len: "length (name p) = m"
    by auto
  have "tuple (reimported Number String p) \<in> set (map tuple ps)"
    using p eq by force
  then obtain q where q: "q \<in> set ps" and same: "tuple q = tuple (reimported Number String p)"
    by auto
  have "name q = quoted (name p)"
    using same by (simp add: tuple_def reimported_def)
  then have "length (name q) = m + 2"
    using len by (simp add: quoted_def)
  moreover have "length (name q) \<le> m"
    unfolding m_def using q by (intro Max_ge) simp_all
  ultimately show False by simp
qed

text \<open>
  C4, as amended. For products whose exported fields hold no comma and no line break, the
  import of the exported file gives one record for each product, in order, and each field
  of it is the exported field with its quotes: the name and the category as quoted texts,
  the price and the stock as \<open>Number\<close> of a quoted text. The tuples read back are
  not those of the collection, unless it is empty.
\<close>

theorem export_import:
  "list_all (plainProduct String) ps \<Longrightarrow>
   newProducts Number now (formCsvContent String ps) = map (reimported Number String) ps \<and>
   (ps \<noteq> [] \<longrightarrow>
      set (map tuple (newProducts Number now (formCsvContent String ps))) \<noteq>
      set (map tuple ps))"
proof -
  assume all: "list_all (plainProduct String) ps"
  note lines = formCsvContent_lines [OF all]
  have "map (parseLine Number now) (map (formRow String) ps) =
      map (\<lambda>p. Some (reimported Number String p)) ps"
    using all by (simp add: list_all_iff parseLine_formRow)
  then have "newProducts Number now (formCsvContent String ps) =
      map (reimported Number String) ps"
    by (simp add: newProducts_def lines comp_def)
  then show ?thesis
    using tuples_differ [of ps Number String] by simp
qed

text \<open>The collection of the examples: both products are read back with their quotes.\<close>

theorem export_import_witness:
  "list_all (plainProduct numberText) [widget, gadget] \<and>
   newProducts textNumber june (formCsvContent numberText [widget, gadget]) =
     map (reimported textNumber numberText) [widget, gadget] \<and>
   set (map tuple (newProducts textNumber june (formCsvContent numberText [widget, gadget]))) \<noteq>
     set (map tuple [widget, gadget])"
proof -
  have h: "list_all (plainProduct numberText) [widget, gadget]"
    by code_simp
  note readBack = export_import [OF h, of textNumber june]
  have "[widget, gadget] \<noteq> []"
    by simp
  then show ?thesis
    using h readBack by blast
qed

text \<open>
  The claim as stated fails: the file exported for \<open>Widget\<close> is read back with the
  quotes in the name and the category, and with \<open>NaN\<close> for the price and the stock.
\<close>

theorem export_import_loses_tuples:
  "map tuple (newProducts textNumber june (formCsvContent numberText [widget])) =
     [(quoted ''Widget'', quoted ''Electronics'', NaN, NaN)] \<and>
   map tuple [widget] = [(''Widget'', ''Electronics'', Num 5, Num 5)] \<and>
   set (map tuple (newProducts textNumber june (formCsvContent numberText [widget]))) \<noteq>
     set (map tuple [widget])"
  by code_simp

text \<open>
  C5. The export of the form puts every field between quotes but doubles the quotes of
  the description only: the row of a product named \<open>19" Monitor\<close> holds the quote of the
  name as it is, and differs from the row the specification describes. The export of the
  navigation bar quotes nothing and turns the commas between the fields into spaces.
\<close>

theorem export_leaves_quotes:
  "formRow numberText monitor =
     join '',''
       [quoted ''9'', quoted (''19'' @ [dq] @ '' Monitor''), quoted ''Electronics'',
        quoted ''120'', quoted ''4'', quoted [], quoted [], quoted []] \<and>
   formRow numberText monitor \<noteq> escapedRow numberText monitor \<and>
   navbarRow numberText monitor = ''9 19'' @ [dq] @ '' Monitor Electronics 120 4   ''"
  by code_simp

section \<open>Derived lists and the collection\<close>

text \<open>
  The list of the product list and the low-stock list of the dashboard start with
  \<open>filter\<close>: the array they sort is a new one, and the collection is left as it is.
\<close>

lemma filteredProducts_keeps_base:
  "r < length h \<Longrightarrow>
   snd (filteredProducts localeCompare search categoryFilter sortBy r h) ! r = h ! r"
  by (simp add: filteredProducts_def Array_filter_def Array_sort_def alloc_def nth_append
        split: prod.splits)

lemma lowStockProducts_keeps_base:
  "r < length h \<Longrightarrow> snd (lowStockProducts r h) ! r = h ! r"
  by (simp add: lowStockProducts_def Array_filter_def Array_sort_def Array_slice_def alloc_def
        nth_append split: prod.splits)

text \<open>\<open>recentUpdates\<close> calls \<open>sort\<close> on the collection itself, which is sorted in place.\<close>

lemma recentUpdates_sorts_base:
  "r < length h \<Longrightarrow>
   snd (recentUpdates getTime r h) ! r =
     sortedBy (\<lambda>a b. minus (updatedTime getTime b) (updatedTime getTime a)) (h ! r)"
  by (simp add: recentUpdates_def Array_sort_def Array_slice_def alloc_def nth_append)

text \<open>
  C9. With \<open>Widget\<close> updated in January before \<open>Gadget\<close> updated in June, computing
  \<open>recentUpdates\<close> leaves the collection in the opposite order; the other two lists
  leave it as it was.
\<close>

theorem recentUpdates_reorders_base:
  "snd (recentUpdates timeOf 0 [[widget, gadget]]) ! 0 = [gadget, widget] \<and>
   snd (lowStockProducts 0 [[widget, gadget]]) ! 0 = [widget, gadget] \<and>
   snd (filteredProducts localeCompare [] [] ''price-desc'' 0 [[widget, gadget]]) ! 0 =
     [widget, gadget]"
proof -
  have "snd (recentUpdates timeOf 0 [[widget, gadget]]) ! 0 = [gadget, widget]"
    by code_simp
  moreover have "snd (lowStockProducts 0 [[widget, gadget]]) ! 0 = [widget, gadget]"
    using lowStockProducts_keeps_base [of 0 "[[widget, gadget]]"] by simp
  moreover have
    "snd (filteredProducts localeCompare [] [] ''price-desc'' 0 [[widget, gadget]]) ! 0 =
     [widget, gadget]"
    using filteredProducts_keeps_base [of 0 "[[widget, gadget]]"] by simp
  ultimately show ?thesis by simp
qed

end
